theory Spec2Isabelle
  imports Complex_Main
begin

section \<open>Data model\<close>

text \<open>
  The tables of the relational store, as the three workflow endpoints use them:
  \<^verbatim>\<open>src/unnamed/part_005\<close> (approvisionnement workflow),
  \<^verbatim>\<open>src/src/pages/api/orders/process/index.ts\<close> (order processing, lines 1-288) and
  \<^verbatim>\<open>src/src/pages/api/stocks/management/index.ts\<close> (stock management).

  Quantities, prices and amounts (JavaScript numbers, decimals in the store) are exact
  rationals; rounding is not modelled. User ids, product ids, warehouse ids, roles and
  status values are strings, as in the source. The generated primary keys of
  approvisionnements, stocks and orders are natural numbers handed out by a counter.
  Record fields carry a two-letter prefix where the source uses one column name in several
  tables. Row timestamps other than the ledger's \<open>last_updated\<close> are left out, and so are
  the primary keys the handlers never read. Requests are run one at a time: interleavings
  of concurrent requests are outside the model.
\<close>

record user =
  u_id :: string
  u_email :: string
  u_name :: string
  u_role :: string

record approvisionnement =
  approvisionnement_id :: nat
  supplier_id :: string
  ap_product_id :: string
  ap_warehouse_id :: string
  ap_quantity :: rat
  proposed_price :: rat
  ap_status :: string
  business_developer_id :: "string option"
  stock_manager_id :: "string option"

record stock =
  stock_id :: nat
  st_product_id :: string
  st_warehouse_id :: string
  st_quantity :: rat
  st_unit_price :: rat
  last_updated :: "nat option"
  st_approvisionnement_id :: "nat option"

record order =
  order_id :: nat
  client_id :: string
  or_warehouse_id :: string
  total_amount :: rat
  or_status :: string
  delivery_option :: bool
  delivery_address :: "string option"
  or_payment_method :: string

record order_item =
  oi_order_id :: nat
  oi_product_id :: string
  oi_quantity :: rat
  oi_unit_price :: rat

record delivery =
  de_order_id :: nat
  de_status :: string

record payment =
  pa_order_id :: "nat option"
  pa_approvisionnement_id :: "nat option"
  amount :: rat
  pa_payment_method :: string
  pa_status :: string

text \<open>The \<open>details\<close> object of an audit record, one constructor per shape the handlers write.\<close>

datatype details =
    Details_workflow string string string "string option"
      \<comment> \<open>action, previous_status, new_status, notes\<close>
  | Details_receive_stock string string rat "string option"
      \<comment> \<open>previous_status, new_status, quantity_received, notes\<close>
  | Details_process_order rat nat bool string
      \<comment> \<open>total_amount, items_count, delivery_option, payment_method\<close>
  | Details_stock_adjustment string string rat rat rat string
      \<comment> \<open>product_id, warehouse_id, previous_quantity, adjustment, new_quantity, reason\<close>
  | Details_stock_transfer string string string rat string
      \<comment> \<open>product_id, from_warehouse_id, to_warehouse_id, quantity_transferred, reason\<close>
  | Details_low_stock_alert string rat rat bool
      \<comment> \<open>product_id, current_quantity, threshold, alert_triggered\<close>

record transaction_log =
  entity_type :: string
  entity_id :: nat
  action :: string
  tl_user_id :: string
  tl_details :: details

text \<open>The text of a notification is a template; the model keeps the template's arguments.\<close>

datatype message =
    Msg_validated_bd string rat
  | Msg_rejected_bd string
  | Msg_stock_received rat
  | Msg_stock_rejected string
  | Msg_order_processed nat rat
  | Msg_new_order nat nat
  | Msg_low_stock string rat rat

record notification =
  no_user_id :: string
  no_type :: string
  no_message :: message
  no_status :: string

text \<open>
  The store. \<open>products\<close> gives the name of the product row that
  \<^verbatim>\<open>include: { products: true }\<close> joins to a stock or approvisionnement row (the foreign
  key makes the joined row exist). \<open>stocks\<close> is a list because \<^verbatim>\<open>findFirst\<close> returns
  the first matching row.
\<close>

record db =
  products :: "string \<Rightarrow> string"
  approvisionnements :: "nat \<rightharpoonup> approvisionnement"
  stocks :: "stock list"
  orders :: "order list"
  order_items :: "order_item list"
  deliveries :: "delivery list"
  payments :: "payment list"
  transaction_logs :: "transaction_log list"
  notifications :: "notification list"
  next_id :: nat

section \<open>Store calls, exceptions and transactions\<close>

text \<open>
  A request runs against a world: the store and a schedule of store failures. The schedule
  is consumed by the writes of the request, one entry per write, \<open>True\<close> meaning that this
  write throws; an exhausted schedule means that no further write fails. Reads do not fail.
\<close>

datatype exn = ZodError | Error string | PrismaError

type_synonym world = "db \<times> bool list"

type_synonym 'a io = "world \<Rightarrow> (exn + 'a) \<times> world"

definition return_io :: "'a \<Rightarrow> 'a io" where
  "return_io x = (\<lambda>w. (Inr x, w))"

definition throw :: "exn \<Rightarrow> 'a io" where
  "throw e = (\<lambda>w. (Inl e, w))"

definition bind_io :: "'a io \<Rightarrow> ('a \<Rightarrow> 'b io) \<Rightarrow> 'b io" where
  "bind_io m f = (\<lambda>w. case m w of (Inl e, w') \<Rightarrow> (Inl e, w') | (Inr x, w') \<Rightarrow> f x w')"

definition catch_io :: "'a io \<Rightarrow> (exn \<Rightarrow> 'a io) \<Rightarrow> 'a io" where
  "catch_io m h = (\<lambda>w. case m w of (Inl e, w') \<Rightarrow> h e w' | (Inr x, w') \<Rightarrow> (Inr x, w'))"

definition store_read :: "(db \<Rightarrow> 'a) \<Rightarrow> 'a io" where
  "store_read f = (\<lambda>(d, fs). (Inr (f d), (d, fs)))"

definition store_write :: "(db \<Rightarrow> 'a \<times> db) \<Rightarrow> 'a io" where
  "store_write f = (\<lambda>(d, fs).
     case fs of
       [] \<Rightarrow> (Inr (fst (f d)), (snd (f d), []))
     | b # fs' \<Rightarrow>
         if b then (Inl PrismaError, (d, fs'))
         else (Inr (fst (f d)), (snd (f d), fs')))"

text \<open>
  \<^verbatim>\<open>prisma.$transaction(async (tx) => ...)\<close>: when the callback throws, every write it made
  is rolled back and the exception is thrown on.
\<close>

definition prisma_transaction :: "'a io \<Rightarrow> 'a io" where
  "prisma_transaction body = (\<lambda>(d, fs).
     case body (d, fs) of
       (Inl e, (d', fs')) \<Rightarrow> (Inl e, (d, fs'))
     | (Inr x, w') \<Rightarrow> (Inr x, w'))"

text \<open>
  \<^verbatim>\<open>error instanceof Error ? error.message : ...\<close>: every exception of the model is an
  \<^verbatim>\<open>Error\<close>; the texts of the validation library's and the store's exceptions are not
  in the source and are stood for by fixed strings.
\<close>

fun exn_message :: "exn \<Rightarrow> string" where
  "exn_message (Error m) = m"
| "exn_message ZodError = ''<zod validation message>''"
| "exn_message PrismaError = ''<store error message>''"

subsection \<open>Table operations\<close>

definition stocks_findFirst :: "(stock \<Rightarrow> bool) \<Rightarrow> stock option io" where
  "stocks_findFirst wh = store_read (\<lambda>d. find wh (stocks d))"

text \<open>The same with \<^verbatim>\<open>include: { products: true }\<close>: the row and its product's name.\<close>

definition stocks_findFirst_products :: "(stock \<Rightarrow> bool) \<Rightarrow> (stock \<times> string) option io" where
  "stocks_findFirst_products wh =
     store_read (\<lambda>d. map_option (\<lambda>s. (s, products d (st_product_id s))) (find wh (stocks d)))"

text \<open>
  \<^verbatim>\<open>stocks.update({ where: { stock_id }, data })\<close> returns the updated row and throws when
  no row has the key. \<open>upd\<close> gets the stored row, so that \<^verbatim>\<open>{ decrement: q }\<close> is
  \<open>\<lambda>s. s\<lparr>st_quantity := st_quantity s - q\<rparr>\<close>. The key is the primary key; the model
  updates every row that carries it.
\<close>

definition stocks_updateWhere :: "nat \<Rightarrow> (stock \<Rightarrow> stock) \<Rightarrow> stock io" where
  "stocks_updateWhere sid upd = (\<lambda>(d, fs).
     case find (\<lambda>s. stock_id s = sid) (stocks d) of
       None \<Rightarrow> (Inl PrismaError, (d, fs))
     | Some s \<Rightarrow>
         store_write (\<lambda>d. (upd s,
           d\<lparr>stocks := map (\<lambda>r. if stock_id r = sid then upd r else r) (stocks d)\<rparr>)) (d, fs))"

text \<open>\<^verbatim>\<open>stocks.create({ data })\<close>: the store generates the key; \<open>mk\<close> builds the row from it.\<close>

definition stocks_create :: "(nat \<Rightarrow> stock) \<Rightarrow> stock io" where
  "stocks_create mk = store_write (\<lambda>d. (mk (next_id d),
     d\<lparr>stocks := stocks d @ [mk (next_id d)], next_id := Suc (next_id d)\<rparr>))"

definition transaction_logs_create :: "transaction_log \<Rightarrow> unit io" where
  "transaction_logs_create l =
     store_write (\<lambda>d. ((), d\<lparr>transaction_logs := transaction_logs d @ [l]\<rparr>))"

definition notifications_create :: "notification \<Rightarrow> unit io" where
  "notifications_create n =
     store_write (\<lambda>d. ((), d\<lparr>notifications := notifications d @ [n]\<rparr>))"

definition payments_create :: "payment \<Rightarrow> payment io" where
  "payments_create p = store_write (\<lambda>d. (p, d\<lparr>payments := payments d @ [p]\<rparr>))"

definition order_items_create :: "order_item \<Rightarrow> order_item io" where
  "order_items_create i = store_write (\<lambda>d. (i, d\<lparr>order_items := order_items d @ [i]\<rparr>))"

definition deliveries_create :: "delivery \<Rightarrow> delivery io" where
  "deliveries_create x = store_write (\<lambda>d. (x, d\<lparr>deliveries := deliveries d @ [x]\<rparr>))"

definition orders_create :: "(nat \<Rightarrow> order) \<Rightarrow> order io" where
  "orders_create mk = store_write (\<lambda>d. (mk (next_id d),
     d\<lparr>orders := orders d @ [mk (next_id d)], next_id := Suc (next_id d)\<rparr>))"

definition orders_updateWhere :: "nat \<Rightarrow> (order \<Rightarrow> order) \<Rightarrow> order io" where
  "orders_updateWhere oid upd = (\<lambda>(d, fs).
     case find (\<lambda>r. order_id r = oid) (orders d) of
       None \<Rightarrow> (Inl PrismaError, (d, fs))
     | Some r \<Rightarrow>
         store_write (\<lambda>d. (upd r,
           d\<lparr>orders := map (\<lambda>r. if order_id r = oid then upd r else r) (orders d)\<rparr>)) (d, fs))"

text \<open>
  \<^verbatim>\<open>approvisionnements.findUnique\<close> with \<^verbatim>\<open>include: { products: true }\<close>, and
  \<^verbatim>\<open>approvisionnements.update\<close> by primary key.
\<close>

definition approvisionnements_findUnique :: "nat \<Rightarrow> (approvisionnement \<times> string) option io" where
  "approvisionnements_findUnique k =
     store_read (\<lambda>d. map_option (\<lambda>a. (a, products d (ap_product_id a))) (approvisionnements d k))"

definition approvisionnements_updateWhere ::
    "nat \<Rightarrow> (approvisionnement \<Rightarrow> approvisionnement) \<Rightarrow> approvisionnement io" where
  "approvisionnements_updateWhere k upd = (\<lambda>(d, fs).
     case approvisionnements d k of
       None \<Rightarrow> (Inl PrismaError, (d, fs))
     | Some a \<Rightarrow>
         store_write (\<lambda>d. (upd a,
           d\<lparr>approvisionnements := (approvisionnements d)(k \<mapsto> upd a)\<rparr>)) (d, fs))"

text \<open>An HTTP request after the middleware: the method, the parsed \<^verbatim>\<open>x-user-data\<close> header
  when present, and the body.\<close>

record 'b request =
  rq_method :: string
  rq_user :: "user option"
  rq_body :: 'b

subsection \<open>Responses and JavaScript truthiness\<close>

text \<open>
  \<^verbatim>\<open>res.status(s).json({ error, code })\<close> is \<open>Failure s error code\<close>;
  \<^verbatim>\<open>res.status(s).json({ data, message })\<close> is \<open>Success s data\<close> (the confirmation text is
  left out).
\<close>

datatype 'a response = Failure nat string string | Success nat 'a

text \<open>\<^verbatim>\<open>!x\<close> on an optional string or number, and \<^verbatim>\<open>x || dflt\<close> on an optional string.\<close>

fun falsy_str :: "string option \<Rightarrow> bool" where
  "falsy_str None = True"
| "falsy_str (Some s) = (s = [])"

fun falsy_num :: "rat option \<Rightarrow> bool" where
  "falsy_num None = True"
| "falsy_num (Some q) = (q = 0)"

fun or_else :: "string option \<Rightarrow> string \<Rightarrow> string" where
  "or_else None dflt = dflt"
| "or_else (Some s) dflt = (if s = [] then dflt else s)"

section \<open>Stock management endpoint\<close>

text \<open>The request body after \<^verbatim>\<open>stockManagementSchema.parse\<close>.\<close>

record stock_request =
  sr_action :: string
  sr_product_id :: "string option"
  sr_warehouse_id :: "string option"
  sr_quantity :: "rat option"
  from_warehouse_id :: "string option"
  to_warehouse_id :: "string option"
  sr_reason :: "string option"
  threshold :: "rat option"

text \<open>
  What the schema checks beyond the field types: the action is one of the four, and a
  threshold, when given, is positive. The uuid format of the ids is not modelled.
\<close>

definition stockManagementSchema :: "stock_request \<Rightarrow> bool" where
  "stockManagementSchema b =
     (sr_action b \<in> {''adjust'', ''transfer'', ''report'', ''alert''} \<and>
      (case threshold b of None \<Rightarrow> True | Some t \<Rightarrow> 0 < t))"

record adjust_result =
  ar_stock :: stock
  ar_product :: string
  ar_adjustment :: rat
  ar_previous_quantity :: rat
  ar_new_quantity :: rat

record transfer_result =
  source_stock :: stock
  destination_stock :: stock
  tr_product :: string
  quantity_transferred :: rat

record alert_result =
  al_product :: string
  current_quantity :: rat
  al_threshold :: rat
  is_low_stock :: bool
  alert_sent :: bool

text \<open>Of the report, the model keeps the summary counts and the low-stock rows.\<close>

record report_result =
  total_items :: nat
  total_value :: rat
  low_stock_items :: "stock list"

datatype stock_payload =
    Adjusted adjust_result
  | Transferred transfer_result
  | Alert alert_result
  | Report report_result

text \<open>
  \<^verbatim>\<open>handleStockAdjustment\<close> (lines 131-217): \<open>adjust_tx\<close> is the callback of its
  transaction (lines 145-204), the handler the required-field check around it and the
  \<^verbatim>\<open>catch\<close> that answers any exception with status 500.
\<close>

definition adjust_tx :: "user \<Rightarrow> string \<Rightarrow> string \<Rightarrow> rat \<Rightarrow> string option \<Rightarrow> nat
    \<Rightarrow> adjust_result io" where
  "adjust_tx usr pid wid q rsn now =
     bind_io (stocks_findFirst_products
                (\<lambda>s. st_product_id s = pid \<and> st_warehouse_id s = wid))
       (\<lambda>currentStock.
     case currentStock of
       None \<Rightarrow> throw (Error ''Stock record not found for this product and warehouse'')
     | Some (cs, cs_products) \<Rightarrow>
         let newQuantity = st_quantity cs + q in
         if newQuantity < 0
         then throw (Error ''Stock adjustment would result in negative quantity'')
         else
           bind_io (stocks_updateWhere (stock_id cs)
                      (\<lambda>s. s\<lparr>st_quantity := newQuantity, last_updated := Some now\<rparr>))
             (\<lambda>updatedStock.
           bind_io (transaction_logs_create
                      \<lparr>entity_type = ''stocks'', entity_id = stock_id cs, action = ''UPDATE'',
                       tl_user_id = u_id usr,
                       tl_details = Details_stock_adjustment pid wid (st_quantity cs) q
                         newQuantity (or_else rsn ''Manual adjustment'')\<rparr>)
             (\<lambda>_.
           return_io \<lparr>ar_stock = updatedStock, ar_product = cs_products,
                      ar_adjustment = q, ar_previous_quantity = st_quantity cs,
                      ar_new_quantity = newQuantity\<rparr>)))"

definition handleStockAdjustment :: "user \<Rightarrow> stock_request \<Rightarrow> nat \<Rightarrow> stock_payload response io" where
  "handleStockAdjustment usr data now =
     (if falsy_str (sr_product_id data) \<or> falsy_str (sr_warehouse_id data)
         \<or> sr_quantity data = None
      then return_io (Failure 400
             ''product_id, warehouse_id, and quantity are required for stock adjustment''
             ''MISSING_REQUIRED_FIELDS'')
      else
        catch_io
          (bind_io (prisma_transaction
                      (adjust_tx usr (the (sr_product_id data)) (the (sr_warehouse_id data))
                         (the (sr_quantity data)) (sr_reason data) now))
             (\<lambda>result. return_io (Success 200 (Adjusted result))))
          (\<lambda>error. return_io (Failure 500 (exn_message error) ''STOCK_ADJUSTMENT_FAILED'')))"

text \<open>
  \<^verbatim>\<open>handleStockTransfer\<close> (lines 228-345), in the same two parts; the callback of the
  transaction is lines 249-332.
\<close>

definition transfer_tx :: "user \<Rightarrow> string \<Rightarrow> string \<Rightarrow> string \<Rightarrow> rat \<Rightarrow> string option \<Rightarrow> nat
    \<Rightarrow> transfer_result io" where
  "transfer_tx usr pid from to q rsn now =
     bind_io (stocks_findFirst_products
                (\<lambda>s. st_product_id s = pid \<and> st_warehouse_id s = from))
       (\<lambda>sourceStock.
     case sourceStock of
       None \<Rightarrow> throw (Error ''Source stock not found'')
     | Some (src, src_products) \<Rightarrow>
         if st_quantity src < q
         then throw (Error ''Insufficient stock in source warehouse'')
         else
           bind_io (stocks_findFirst (\<lambda>s. st_product_id s = pid \<and> st_warehouse_id s = to))
             (\<lambda>found.
           bind_io
             (case found of
                None \<Rightarrow>
                  stocks_create (\<lambda>k. \<lparr>stock_id = k, st_product_id = pid, st_warehouse_id = to,
                    st_quantity = q, st_unit_price = st_unit_price src,
                    last_updated = Some now, st_approvisionnement_id = None\<rparr>)
              | Some dst \<Rightarrow>
                  stocks_updateWhere (stock_id dst)
                    (\<lambda>s. s\<lparr>st_quantity := st_quantity dst + q, last_updated := Some now\<rparr>))
             (\<lambda>destinationStock.
           bind_io (stocks_updateWhere (stock_id src)
                      (\<lambda>s. s\<lparr>st_quantity := st_quantity src - q, last_updated := Some now\<rparr>))
             (\<lambda>updatedSourceStock.
           bind_io (transaction_logs_create
                      \<lparr>entity_type = ''stocks'', entity_id = stock_id src, action = ''UPDATE'',
                       tl_user_id = u_id usr,
                       tl_details = Details_stock_transfer pid from to q
                         (or_else rsn ''Manual transfer'')\<rparr>)
             (\<lambda>_.
           return_io \<lparr>source_stock = updatedSourceStock,
                      destination_stock = destinationStock, tr_product = src_products,
                      quantity_transferred = q\<rparr>)))))"

definition handleStockTransfer :: "user \<Rightarrow> stock_request \<Rightarrow> nat \<Rightarrow> stock_payload response io" where
  "handleStockTransfer usr data now =
     (if falsy_str (sr_product_id data) \<or> falsy_str (from_warehouse_id data)
         \<or> falsy_str (to_warehouse_id data) \<or> falsy_num (sr_quantity data)
      then return_io (Failure 400
             ''product_id, from_warehouse_id, to_warehouse_id, and quantity are required for stock transfer''
             ''MISSING_REQUIRED_FIELDS'')
      else if from_warehouse_id data = to_warehouse_id data
      then return_io (Failure 400 ''Source and destination warehouses must be different''
             ''INVALID_TRANSFER'')
      else
        catch_io
          (bind_io (prisma_transaction
                      (transfer_tx usr (the (sr_product_id data)) (the (from_warehouse_id data))
                         (the (to_warehouse_id data)) (the (sr_quantity data)) (sr_reason data)
                         now))
             (\<lambda>result. return_io (Success 200 (Transferred result))))
          (\<lambda>error. return_io (Failure 500 (exn_message error) ''STOCK_TRANSFER_FAILED'')))"

text \<open>
  \<^verbatim>\<open>handleStockAlert\<close> looks the product up in any warehouse and uses no transaction:
  the notification and the audit record are two separate writes.
\<close>

definition handleStockAlert :: "user \<Rightarrow> stock_request \<Rightarrow> stock_payload response io" where
  "handleStockAlert usr data =
     (if falsy_str (sr_product_id data) \<or> falsy_num (threshold data)
      then return_io (Failure 400 ''product_id and threshold are required for stock alerts''
             ''MISSING_REQUIRED_FIELDS'')
      else
        catch_io
          (bind_io (stocks_findFirst_products
                      (\<lambda>s. st_product_id s = the (sr_product_id data)))
             (\<lambda>currentStock.
           case currentStock of
             None \<Rightarrow> return_io (Failure 404 ''Stock not found for this product''
                       ''STOCK_NOT_FOUND'')
           | Some (cs, cs_products) \<Rightarrow>
               let isLowStock = (st_quantity cs \<le> the (threshold data)) in
               bind_io
                 (if isLowStock
                  then
                    bind_io (notifications_create
                               \<lparr>no_user_id = u_id usr, no_type = ''email'',
                                no_message = Msg_low_stock cs_products (st_quantity cs)
                                  (the (threshold data)),
                                no_status = ''sent''\<rparr>)
                      (\<lambda>_.
                    transaction_logs_create
                      \<lparr>entity_type = ''stocks'', entity_id = stock_id cs, action = ''CREATE'',
                       tl_user_id = u_id usr,
                       tl_details = Details_low_stock_alert (the (sr_product_id data))
                         (st_quantity cs) (the (threshold data)) True\<rparr>)
                  else return_io ())
                 (\<lambda>_.
               return_io (Success 200 (Alert
                 \<lparr>al_product = cs_products, current_quantity = st_quantity cs,
                  al_threshold = the (threshold data), is_low_stock = isLowStock,
                  alert_sent = isLowStock\<rparr>)))))
          (\<lambda>error. return_io (Failure 500 ''Failed to process stock alert''
             ''ALERT_PROCESSING_FAILED'')))"


text \<open>\<^verbatim>\<open>handleInventoryReport\<close> (lines 356-436) reads only.\<close>

definition handleInventoryReport :: "user \<Rightarrow> stock_request \<Rightarrow> stock_payload response io" where
  "handleInventoryReport usr data =
     catch_io
       (bind_io (store_read stocks) (\<lambda>stockReport.
        return_io (Success 200 (Report
          \<lparr>total_items = length stockReport,
           total_value = foldl (\<lambda>sum s. sum + st_quantity s * st_unit_price s) 0 stockReport,
           low_stock_items = filter (\<lambda>s. st_quantity s < 10) stockReport\<rparr>))))
       (\<lambda>error. return_io (Failure 500 ''Failed to generate inventory report''
          ''REPORT_GENERATION_FAILED''))"

text \<open>
  \<^verbatim>\<open>handler\<close> (lines 54-120): method, authentication, schema, role, then the dispatch on
  the action.
\<close>

definition handler_stocks_management ::
    "stock_request request \<Rightarrow> nat \<Rightarrow> stock_payload response io" where
  "handler_stocks_management req now =
     (if rq_method req \<noteq> ''POST''
      then return_io (Failure 405 ''Method not allowed'' ''METHOD_NOT_ALLOWED'')
      else case rq_user req of
        None \<Rightarrow> return_io (Failure 401 ''Authentication required'' ''UNAUTHORIZED'')
      | Some usr \<Rightarrow>
          catch_io
            (if \<not> stockManagementSchema (rq_body req) then throw ZodError
             else if u_role usr \<noteq> ''stock_manager'' \<and> u_role usr \<noteq> ''admin''
             then return_io (Failure 403 ''Only Stock Managers can manage inventory''
                    ''INSUFFICIENT_PERMISSIONS'')
             else if sr_action (rq_body req) = ''adjust''
             then handleStockAdjustment usr (rq_body req) now
             else if sr_action (rq_body req) = ''transfer''
             then handleStockTransfer usr (rq_body req) now
             else if sr_action (rq_body req) = ''report''
             then handleInventoryReport usr (rq_body req)
             else if sr_action (rq_body req) = ''alert''
             then handleStockAlert usr (rq_body req)
             else return_io (Failure 400 ''Invalid action'' ''INVALID_ACTION''))
            (\<lambda>error. case error of
               ZodError \<Rightarrow> return_io (Failure 400 ''Invalid input data'' ''VALIDATION_ERROR'')
             | _ \<Rightarrow> return_io (Failure 500 ''Internal server error''
                      ''INTERNAL_SERVER_ERROR'')))"

section \<open>Approvisionnement workflow endpoint\<close>

text \<open>The request body after \<^verbatim>\<open>workflowActionSchema.parse\<close>.\<close>

record workflow_request =
  wf_action :: string
  wf_approvisionnement_id :: nat
  wf_notes :: "string option"
  wf_reason :: "string option"
  actual_quantity :: "rat option"
  actual_price :: "rat option"

definition workflowActionSchema :: "workflow_request \<Rightarrow> bool" where
  "workflowActionSchema b =
     (wf_action b \<in> {''validate_bd'', ''reject_bd'', ''receive_stock'', ''reject_stock''} \<and>
      (case actual_quantity b of None \<Rightarrow> True | Some q \<Rightarrow> 0 < q) \<and>
      (case actual_price b of None \<Rightarrow> True | Some p \<Rightarrow> 0 < p))"

text \<open>
  The four action handlers get the approvisionnement row (with its product's name) that
  \<^verbatim>\<open>handler\<close> read before dispatching. Their \<^verbatim>\<open>catch (error) { throw error }\<close> only logs.
\<close>

text \<open>\<^verbatim>\<open>handleBusinessDeveloperValidation\<close> (lines 145-213): three writes, no transaction.\<close>

definition handleBusinessDeveloperValidation ::
    "user \<Rightarrow> approvisionnement \<times> string \<Rightarrow> workflow_request \<Rightarrow> approvisionnement response io" where
  "handleBusinessDeveloperValidation usr apv data =
     (case apv of (approvisionnement, ap_products) \<Rightarrow>
      if u_role usr \<noteq> ''business_developer'' \<and> u_role usr \<noteq> ''admin''
      then return_io (Failure 403 ''Only Business Developers can validate approvisionnements''
             ''INSUFFICIENT_PERMISSIONS'')
      else if ap_status approvisionnement \<noteq> ''pending''
      then return_io (Failure 400
             ''Approvisionnement must be in pending status to be validated'' ''INVALID_STATUS'')
      else
        bind_io (approvisionnements_updateWhere (approvisionnement_id approvisionnement)
                   (\<lambda>a. a\<lparr>ap_status := ''validated_bd'',
                           business_developer_id := Some (u_id usr)\<rparr>))
          (\<lambda>updatedApprovisionnement.
        bind_io (transaction_logs_create
                   \<lparr>entity_type = ''approvisionnements'',
                    entity_id = approvisionnement_id approvisionnement, action = ''UPDATE'',
                    tl_user_id = u_id usr,
                    tl_details = Details_workflow ''validate_bd''
                      (ap_status approvisionnement) ''validated_bd'' (wf_notes data)\<rparr>)
          (\<lambda>_.
        bind_io (notifications_create
                   \<lparr>no_user_id = or_else (stock_manager_id approvisionnement)
                      ''stock-manager-id'',
                    no_type = ''email'',
                    no_message = Msg_validated_bd ap_products (ap_quantity approvisionnement),
                    no_status = ''sent''\<rparr>)
          (\<lambda>_.
        return_io (Success 200 updatedApprovisionnement)))))"

text \<open>\<^verbatim>\<open>handleBusinessDeveloperRejection\<close> (lines 225-293).\<close>

definition handleBusinessDeveloperRejection ::
    "user \<Rightarrow> approvisionnement \<times> string \<Rightarrow> workflow_request \<Rightarrow> approvisionnement response io" where
  "handleBusinessDeveloperRejection usr apv data =
     (case apv of (approvisionnement, ap_products) \<Rightarrow>
      if u_role usr \<noteq> ''business_developer'' \<and> u_role usr \<noteq> ''admin''
      then return_io (Failure 403 ''Only Business Developers can reject approvisionnements''
             ''INSUFFICIENT_PERMISSIONS'')
      else if ap_status approvisionnement \<noteq> ''pending''
      then return_io (Failure 400
             ''Approvisionnement must be in pending status to be rejected'' ''INVALID_STATUS'')
      else
        bind_io (approvisionnements_updateWhere (approvisionnement_id approvisionnement)
                   (\<lambda>a. a\<lparr>ap_status := ''rejected'',
                           business_developer_id := Some (u_id usr)\<rparr>))
          (\<lambda>updatedApprovisionnement.
        bind_io (transaction_logs_create
                   \<lparr>entity_type = ''approvisionnements'',
                    entity_id = approvisionnement_id approvisionnement, action = ''UPDATE'',
                    tl_user_id = u_id usr,
                    tl_details = Details_workflow ''reject_bd''
                      (ap_status approvisionnement) ''rejected'' (wf_notes data)\<rparr>)
          (\<lambda>_.
        bind_io (notifications_create
                   \<lparr>no_user_id = supplier_id approvisionnement, no_type = ''email'',
                    no_message = Msg_rejected_bd (or_else (wf_notes data) ''No reason provided''),
                    no_status = ''sent''\<rparr>)
          (\<lambda>_.
        return_io (Success 200 updatedApprovisionnement)))))"

text \<open>
  \<^verbatim>\<open>handleStockReceival\<close> (lines 305-422): \<open>receive_tx\<close> is the callback of its transaction
  (lines 330-385): status, ledger upsert, payment. The audit record and the notification
  are written by the handler after \<^verbatim>\<open>prisma.$transaction\<close> has returned (lines 387-412).
\<close>

definition receive_tx :: "user \<Rightarrow> approvisionnement \<Rightarrow> nat \<Rightarrow> approvisionnement io" where
  "receive_tx usr approvisionnement now =
     bind_io (approvisionnements_updateWhere (approvisionnement_id approvisionnement)
                (\<lambda>a. a\<lparr>ap_status := ''received'', stock_manager_id := Some (u_id usr)\<rparr>))
       (\<lambda>updatedApprovisionnement.
     bind_io (stocks_findFirst
                (\<lambda>s. st_product_id s = ap_product_id approvisionnement
                    \<and> st_warehouse_id s = ap_warehouse_id approvisionnement))
       (\<lambda>existingStock.
     bind_io
       (case existingStock of
          Some es \<Rightarrow>
            stocks_updateWhere (stock_id es)
              (\<lambda>s. s\<lparr>st_quantity := st_quantity es + ap_quantity approvisionnement,
                      st_unit_price := proposed_price approvisionnement,
                      last_updated := Some now,
                      st_approvisionnement_id :=
                        Some (approvisionnement_id approvisionnement)\<rparr>)
        | None \<Rightarrow>
            stocks_create (\<lambda>k. \<lparr>stock_id = k,
              st_product_id = ap_product_id approvisionnement,
              st_warehouse_id = ap_warehouse_id approvisionnement,
              st_quantity = ap_quantity approvisionnement,
              st_unit_price = proposed_price approvisionnement,
              last_updated = None,
              st_approvisionnement_id = Some (approvisionnement_id approvisionnement)\<rparr>))
       (\<lambda>_.
     bind_io (payments_create
                \<lparr>pa_order_id = None,
                 pa_approvisionnement_id = Some (approvisionnement_id approvisionnement),
                 amount = ap_quantity approvisionnement * proposed_price approvisionnement,
                 pa_payment_method = ''direct'', pa_status = ''pending''\<rparr>)
       (\<lambda>_.
     return_io updatedApprovisionnement))))"

definition handleStockReceival ::
    "user \<Rightarrow> approvisionnement \<times> string \<Rightarrow> workflow_request \<Rightarrow> nat
     \<Rightarrow> approvisionnement response io" where
  "handleStockReceival usr apv data now =
     (case apv of (approvisionnement, ap_products) \<Rightarrow>
      if u_role usr \<noteq> ''stock_manager'' \<and> u_role usr \<noteq> ''admin''
      then return_io (Failure 403 ''Only Stock Managers can receive stock''
             ''INSUFFICIENT_PERMISSIONS'')
      else if ap_status approvisionnement \<noteq> ''validated_bd''
      then return_io (Failure 400
             ''Approvisionnement must be validated by Business Developer before stock can be received''
             ''INVALID_STATUS'')
      else
        bind_io (prisma_transaction (receive_tx usr approvisionnement now))
          (\<lambda>result.
        bind_io (transaction_logs_create
                   \<lparr>entity_type = ''approvisionnements'',
                    entity_id = approvisionnement_id approvisionnement, action = ''UPDATE'',
                    tl_user_id = u_id usr,
                    tl_details = Details_receive_stock (ap_status approvisionnement)
                      ''received'' (ap_quantity approvisionnement) (wf_notes data)\<rparr>)
          (\<lambda>_.
        bind_io (notifications_create
                   \<lparr>no_user_id = supplier_id approvisionnement, no_type = ''email'',
                    no_message = Msg_stock_received
                      (ap_quantity approvisionnement * proposed_price approvisionnement),
                    no_status = ''sent''\<rparr>)
          (\<lambda>_.
        return_io (Success 200 result)))))"

text \<open>\<^verbatim>\<open>handleStockRejection\<close> (lines 434-502).\<close>

definition handleStockRejection ::
    "user \<Rightarrow> approvisionnement \<times> string \<Rightarrow> workflow_request \<Rightarrow> approvisionnement response io" where
  "handleStockRejection usr apv data =
     (case apv of (approvisionnement, ap_products) \<Rightarrow>
      if u_role usr \<noteq> ''stock_manager'' \<and> u_role usr \<noteq> ''admin''
      then return_io (Failure 403 ''Only Stock Managers can reject stock''
             ''INSUFFICIENT_PERMISSIONS'')
      else if ap_status approvisionnement \<noteq> ''validated_bd''
      then return_io (Failure 400
             ''Approvisionnement must be validated by Business Developer before stock can be rejected''
             ''INVALID_STATUS'')
      else
        bind_io (approvisionnements_updateWhere (approvisionnement_id approvisionnement)
                   (\<lambda>a. a\<lparr>ap_status := ''rejected'', stock_manager_id := Some (u_id usr)\<rparr>))
          (\<lambda>updatedApprovisionnement.
        bind_io (transaction_logs_create
                   \<lparr>entity_type = ''approvisionnements'',
                    entity_id = approvisionnement_id approvisionnement, action = ''UPDATE'',
                    tl_user_id = u_id usr,
                    tl_details = Details_workflow ''reject_stock''
                      (ap_status approvisionnement) ''rejected'' (wf_notes data)\<rparr>)
          (\<lambda>_.
        bind_io (notifications_create
                   \<lparr>no_user_id = supplier_id approvisionnement, no_type = ''email'',
                    no_message = Msg_stock_rejected
                      (or_else (wf_notes data) ''No reason provided''),
                    no_status = ''sent''\<rparr>)
          (\<lambda>_.
        return_io (Success 200 updatedApprovisionnement)))))"

text \<open>
  \<^verbatim>\<open>handler\<close> (lines 59-132): method, authentication, schema, then the lookup of the
  approvisionnement and the dispatch on the action.
\<close>

definition handler_workflow ::
    "workflow_request request \<Rightarrow> nat \<Rightarrow> approvisionnement response io" where
  "handler_workflow req now =
     (if rq_method req \<noteq> ''POST''
      then return_io (Failure 405 ''Method not allowed'' ''METHOD_NOT_ALLOWED'')
      else case rq_user req of
        None \<Rightarrow> return_io (Failure 401 ''Authentication required'' ''UNAUTHORIZED'')
      | Some usr \<Rightarrow>
          catch_io
            (if \<not> workflowActionSchema (rq_body req) then throw ZodError
             else
               bind_io (approvisionnements_findUnique
                          (wf_approvisionnement_id (rq_body req)))
                 (\<lambda>found.
               case found of
                 None \<Rightarrow> return_io (Failure 404 ''Approvisionnement not found'' ''NOT_FOUND'')
               | Some apv \<Rightarrow>
                   if wf_action (rq_body req) = ''validate_bd''
                   then handleBusinessDeveloperValidation usr apv (rq_body req)
                   else if wf_action (rq_body req) = ''reject_bd''
                   then handleBusinessDeveloperRejection usr apv (rq_body req)
                   else if wf_action (rq_body req) = ''receive_stock''
                   then handleStockReceival usr apv (rq_body req) now
                   else if wf_action (rq_body req) = ''reject_stock''
                   then handleStockRejection usr apv (rq_body req)
                   else return_io (Failure 400 ''Invalid action'' ''INVALID_ACTION'')))
            (\<lambda>error. case error of
               ZodError \<Rightarrow> return_io (Failure 400 ''Invalid input data'' ''VALIDATION_ERROR'')
             | _ \<Rightarrow> return_io (Failure 500 ''Internal server error''
                      ''INTERNAL_SERVER_ERROR'')))"

section \<open>Order processing endpoint\<close>

text \<open>The request body after \<^verbatim>\<open>orderProcessingSchema.parse\<close> (lines 1-288 of the file).\<close>

record order_item_input =
  it_product_id :: string
  it_quantity :: rat
  it_unit_price :: rat

record order_request =
  oq_client_id :: string
  oq_warehouse_id :: string
  oq_items :: "order_item_input list"
  oq_delivery_option :: bool
  oq_delivery_address :: "string option"
  oq_payment_method :: string

definition orderProcessingSchema :: "order_request \<Rightarrow> bool" where
  "orderProcessingSchema b =
     (list_all (\<lambda>i. 0 < it_quantity i \<and> 0 < it_unit_price i) (oq_items b) \<and>
      1 \<le> length (oq_items b) \<and>
      oq_payment_method b \<in> {''direct'', ''credit''})"

record stock_validation =
  valid :: bool
  productName :: "string option"
  availableQuantity :: "rat option"
  requestedQuantity :: "rat option"

text \<open>\<^verbatim>\<open>validateStockAvailability\<close> (lines 252-288): the first item that fails ends the loop.\<close>

fun validateStockAvailability :: "order_item_input list \<Rightarrow> string \<Rightarrow> stock_validation io" where
  "validateStockAvailability [] warehouseId =
     return_io \<lparr>valid = True, productName = None, availableQuantity = None,
                requestedQuantity = None\<rparr>"
| "validateStockAvailability (item # items) warehouseId =
     bind_io (stocks_findFirst_products
                (\<lambda>s. st_product_id s = it_product_id item \<and> st_warehouse_id s = warehouseId))
       (\<lambda>found.
     case found of
       None \<Rightarrow>
         return_io \<lparr>valid = False,
                    productName = Some (''Product ID: '' @ it_product_id item),
                    availableQuantity = Some 0,
                    requestedQuantity = Some (it_quantity item)\<rparr>
     | Some (stock, stock_products) \<Rightarrow>
         if st_quantity stock < it_quantity item
         then return_io \<lparr>valid = False, productName = Some stock_products,
                         availableQuantity = Some (st_quantity stock),
                         requestedQuantity = Some (it_quantity item)\<rparr>
         else validateStockAvailability items warehouseId)"

text \<open>
  Step 4, the loop over the items (lines 110-141): create the order item, look the ledger row up again,
  and decrement it by this item's quantity when it is there.
\<close>

fun create_items_and_update_stock ::
    "nat \<Rightarrow> string \<Rightarrow> nat \<Rightarrow> order_item_input list \<Rightarrow> order_item list io" where
  "create_items_and_update_stock oid warehouseId now [] = return_io []"
| "create_items_and_update_stock oid warehouseId now (item # items) =
     bind_io (order_items_create
                \<lparr>oi_order_id = oid, oi_product_id = it_product_id item,
                 oi_quantity = it_quantity item, oi_unit_price = it_unit_price item\<rparr>)
       (\<lambda>orderItem.
     bind_io (stocks_findFirst
                (\<lambda>s. st_product_id s = it_product_id item \<and> st_warehouse_id s = warehouseId))
       (\<lambda>found.
     bind_io
       (case found of
          Some stock \<Rightarrow>
            bind_io (stocks_updateWhere (stock_id stock)
                       (\<lambda>s. s\<lparr>st_quantity := st_quantity s - it_quantity item,
                               last_updated := Some now\<rparr>))
              (\<lambda>_. return_io ())
        | None \<Rightarrow> return_io ())
       (\<lambda>_.
     bind_io (create_items_and_update_stock oid warehouseId now items)
       (\<lambda>orderItems.
     return_io (orderItem # orderItems)))))"

record order_result =
  res_order :: order
  res_orderItems :: "order_item list"
  res_delivery :: "delivery option"
  res_payment :: payment

text \<open>\<^verbatim>\<open>`${x}`\<close> of an optional string.\<close>

fun template_str :: "string option \<Rightarrow> string" where
  "template_str None = ''undefined''"
| "template_str (Some s) = s"

text \<open>
  The callback of the transaction (lines 84-183): validation, total, order, items and
  ledger, delivery, payment, order status.
\<close>

definition order_tx :: "order_request \<Rightarrow> nat \<Rightarrow> order_result io" where
  "order_tx validatedData now =
     bind_io (validateStockAvailability (oq_items validatedData)
                (oq_warehouse_id validatedData))
       (\<lambda>stockValidation.
     if \<not> valid stockValidation
     then throw (Error (''Insufficient stock for product: ''
                          @ template_str (productName stockValidation)))
     else
       let totalAmount =
             foldl (\<lambda>sum item. sum + it_quantity item * it_unit_price item) 0
               (oq_items validatedData) in
       bind_io (orders_create (\<lambda>k.
                  \<lparr>order_id = k, client_id = oq_client_id validatedData,
                   or_warehouse_id = oq_warehouse_id validatedData,
                   total_amount = totalAmount, or_status = ''pending'',
                   delivery_option = oq_delivery_option validatedData,
                   delivery_address = oq_delivery_address validatedData,
                   or_payment_method = oq_payment_method validatedData\<rparr>))
         (\<lambda>order.
       bind_io (create_items_and_update_stock (order_id order)
                  (oq_warehouse_id validatedData) now (oq_items validatedData))
         (\<lambda>orderItems.
       bind_io
         (if oq_delivery_option validatedData
          then bind_io (deliveries_create
                          \<lparr>de_order_id = order_id order, de_status = ''assigned''\<rparr>)
                 (\<lambda>x. return_io (Some x))
          else return_io None)
         (\<lambda>delivery.
       bind_io (payments_create
                  \<lparr>pa_order_id = Some (order_id order), pa_approvisionnement_id = None,
                   amount = totalAmount,
                   pa_payment_method = oq_payment_method validatedData,
                   pa_status = (if oq_payment_method validatedData = ''direct''
                                then ''completed'' else ''pending'')\<rparr>)
         (\<lambda>payment.
       bind_io (orders_updateWhere (order_id order)
                  (\<lambda>r. r\<lparr>or_status := (if oq_payment_method validatedData = ''direct''
                                         then ''paid'' else ''pending'')\<rparr>))
         (\<lambda>updatedOrder.
       return_io \<lparr>res_order = updatedOrder, res_orderItems = orderItems,
                  res_delivery = delivery, res_payment = payment\<rparr>))))))"

text \<open>
  \<^verbatim>\<open>handler\<close> (lines 53-242): method, authentication, schema, role, the transaction, and
  after it the audit record and the two notifications (lines 185-220), all inside one
  \<^verbatim>\<open>try\<close>.
\<close>

definition handler_orders_process ::
    "order_request request \<Rightarrow> nat \<Rightarrow> order_result response io" where
  "handler_orders_process req now =
     (if rq_method req \<noteq> ''POST''
      then return_io (Failure 405 ''Method not allowed'' ''METHOD_NOT_ALLOWED'')
      else case rq_user req of
        None \<Rightarrow> return_io (Failure 401 ''Authentication required'' ''UNAUTHORIZED'')
      | Some usr \<Rightarrow>
          catch_io
            (if \<not> orderProcessingSchema (rq_body req) then throw ZodError
             else if u_role usr \<noteq> ''client'' \<and> u_role usr \<noteq> ''admin''
             then return_io (Failure 403 ''Only clients can place orders''
                    ''INSUFFICIENT_PERMISSIONS'')
             else
               bind_io (prisma_transaction (order_tx (rq_body req) now))
                 (\<lambda>result.
               bind_io (transaction_logs_create
                          \<lparr>entity_type = ''orders'', entity_id = order_id (res_order result),
                           action = ''CREATE'', tl_user_id = u_id usr,
                           tl_details = Details_process_order
                             (total_amount (res_order result))
                             (length (res_orderItems result))
                             (oq_delivery_option (rq_body req))
                             (oq_payment_method (rq_body req))\<rparr>)
                 (\<lambda>_.
               bind_io (notifications_create
                          \<lparr>no_user_id = oq_client_id (rq_body req), no_type = ''email'',
                           no_message = Msg_order_processed (order_id (res_order result))
                             (total_amount (res_order result)),
                           no_status = ''sent''\<rparr>)
                 (\<lambda>_.
               bind_io (notifications_create
                          \<lparr>no_user_id = ''warehouse-staff-id'', no_type = ''email'',
                           no_message = Msg_new_order (order_id (res_order result))
                             (length (res_orderItems result)),
                           no_status = ''sent''\<rparr>)
                 (\<lambda>_.
               return_io (Success 201 result))))))
            (\<lambda>error. case error of
               ZodError \<Rightarrow> return_io (Failure 400 ''Invalid input data'' ''VALIDATION_ERROR'')
             | _ \<Rightarrow> return_io (Failure 500 (exn_message error) ''INTERNAL_SERVER_ERROR'')))"

section \<open>Notions used to state the properties\<close>

text \<open>
  The ledger entry of a (product, warehouse) pair is the row \<^verbatim>\<open>findFirst\<close> returns for the
  pair: the first one in the table.
\<close>

definition ledger_entry :: "db \<Rightarrow> string \<Rightarrow> string \<Rightarrow> stock option" where
  "ledger_entry d pid wid =
     find (\<lambda>s. st_product_id s = pid \<and> st_warehouse_id s = wid) (stocks d)"


subsection \<open>Example data\<close>

definition ex_user :: "string \<Rightarrow> string \<Rightarrow> user" where
  "ex_user uid rl = \<lparr>u_id = uid, u_email = uid @ ''@agro.test'', u_name = uid, u_role = rl\<rparr>"

definition ex_stock :: "nat \<Rightarrow> string \<Rightarrow> string \<Rightarrow> rat \<Rightarrow> rat \<Rightarrow> stock" where
  "ex_stock k pid wid q price =
     \<lparr>stock_id = k, st_product_id = pid, st_warehouse_id = wid, st_quantity = q,
      st_unit_price = price, last_updated = None, st_approvisionnement_id = None\<rparr>"

definition ex_db :: "stock list \<Rightarrow> (nat \<rightharpoonup> approvisionnement) \<Rightarrow> db" where
  "ex_db rows aps =
     \<lparr>products = (\<lambda>p. ''name of '' @ p), approvisionnements = aps, stocks = rows,
      orders = [], order_items = [], deliveries = [], payments = [], transaction_logs = [],
      notifications = [], next_id = 100\<rparr>"

definition ex_stock_request :: "string \<Rightarrow> stock_request" where
  "ex_stock_request act =
     \<lparr>sr_action = act, sr_product_id = Some ''productA'', sr_warehouse_id = Some ''W1'',
      sr_quantity = None, from_warehouse_id = Some ''W1'', to_warehouse_id = Some ''W2'',
      sr_reason = Some ''recount'', threshold = Some 10\<rparr>"

text \<open>The row \<^verbatim>\<open>handleStockAlert\<close> reads: the first ledger row of the product, in any warehouse.\<close>

definition first_entry_of_product :: "db \<Rightarrow> string \<Rightarrow> stock option" where
  "first_entry_of_product d pid = find (\<lambda>s. st_product_id s = pid) (stocks d)"

definition ex_workflow_request :: "string \<Rightarrow> nat \<Rightarrow> workflow_request" where
  "ex_workflow_request act k =
     \<lparr>wf_action = act, wf_approvisionnement_id = k, wf_notes = None, wf_reason = None,
      actual_quantity = None, actual_price = None\<rparr>"

definition ex_request :: "user \<Rightarrow> 'b \<Rightarrow> 'b request" where
  "ex_request usr b = \<lparr>rq_method = ''POST'', rq_user = Some usr, rq_body = b\<rparr>"

text \<open>A supply proposal of 30 units of productA for warehouse W1 at price 2.\<close>

definition ex_approvisionnement :: "nat \<Rightarrow> string \<Rightarrow> approvisionnement" where
  "ex_approvisionnement k st =
     \<lparr>approvisionnement_id = k, supplier_id = ''sup1'', ap_product_id = ''productA'',
      ap_warehouse_id = ''W1'', ap_quantity = 30, proposed_price = 2, ap_status = st,
      business_developer_id = None, stock_manager_id = None\<rparr>"

text \<open>The store a request leaves behind.\<close>

definition db_after :: "(exn + 'a) \<times> world \<Rightarrow> db" where
  "db_after outcome = fst (snd outcome)"

text \<open>The HTTP status a request was answered with, when the handler answered at all.\<close>

fun response_status :: "'a response \<Rightarrow> nat" where
  "response_status (Failure s e c) = s"
| "response_status (Success s x) = s"

definition status_after :: "(exn + 'a response) \<times> world \<Rightarrow> nat option" where
  "status_after outcome =
     (case fst outcome of Inl e \<Rightarrow> None | Inr r \<Rightarrow> Some (response_status r))"

text \<open>
  An order item offends against the ledger of a warehouse when its product has no entry
  there or the entry holds less than the item asks for; \<open>offender_name\<close> is how
  \<^verbatim>\<open>validateStockAvailability\<close> names the product of such an item.
\<close>

definition offending :: "db \<Rightarrow> string \<Rightarrow> order_item_input \<Rightarrow> bool" where
  "offending d wid item =
     (case ledger_entry d (it_product_id item) wid of
        None \<Rightarrow> True
      | Some s \<Rightarrow> st_quantity s < it_quantity item)"

definition offender_name :: "db \<Rightarrow> string \<Rightarrow> order_item_input \<Rightarrow> string" where
  "offender_name d wid item =
     (case ledger_entry d (it_product_id item) wid of
        None \<Rightarrow> ''Product ID: '' @ it_product_id item
      | Some s \<Rightarrow> products d (st_product_id s))"

definition ex_item :: "string \<Rightarrow> rat \<Rightarrow> rat \<Rightarrow> order_item_input" where
  "ex_item pid q price = \<lparr>it_product_id = pid, it_quantity = q, it_unit_price = price\<rparr>"

definition ex_order_request :: "order_item_input list \<Rightarrow> order_request" where
  "ex_order_request its =
     \<lparr>oq_client_id = ''c1'', oq_warehouse_id = ''W1'', oq_items = its,
      oq_delivery_option = False, oq_delivery_address = None, oq_payment_method = ''direct''\<rparr>"



text \<open>
  What one round of the loop of step 4 does to the ledger when the store does not fail;
  \<open>ledger_covers\<close> says that the rows are keyed uniquely and not negative, that no two
  items name the same product, and that every item finds an entry holding at least what
  it asks for.
\<close>

definition decrement_for :: "string \<Rightarrow> nat \<Rightarrow> stock list \<Rightarrow> order_item_input \<Rightarrow> stock list" where
  "decrement_for wid now rows item =
     (case find (\<lambda>s. st_product_id s = it_product_id item \<and> st_warehouse_id s = wid) rows of
        None \<Rightarrow> rows
      | Some stock \<Rightarrow>
          map (\<lambda>r. if stock_id r = stock_id stock
                   then r\<lparr>st_quantity := st_quantity r - it_quantity item,
                          last_updated := Some now\<rparr>
                   else r) rows)"

definition ledger_covers :: "string \<Rightarrow> stock list \<Rightarrow> order_item_input list \<Rightarrow> bool" where
  "ledger_covers wid rows items =
     (distinct (map stock_id rows) \<and>
      list_all (\<lambda>s. 0 \<le> st_quantity s) rows \<and>
      distinct (map it_product_id items) \<and>
      list_all (\<lambda>item.
         case find (\<lambda>s. st_product_id s = it_product_id item \<and> st_warehouse_id s = wid) rows of
           None \<Rightarrow> False
         | Some s \<Rightarrow> it_quantity item \<le> st_quantity s) items)"

section \<open>Auxiliary facts\<close>

lemmas io_defs = return_io_def throw_def bind_io_def catch_io_def store_read_def store_write_def
  prisma_transaction_def stocks_findFirst_def stocks_findFirst_products_def stocks_updateWhere_def
  stocks_create_def transaction_logs_create_def notifications_create_def payments_create_def
  order_items_create_def deliveries_create_def orders_create_def orders_updateWhere_def
  approvisionnements_findUnique_def approvisionnements_updateWhere_def

lemmas ex_defs = ex_user_def ex_stock_def ex_db_def ex_stock_request_def

lemma find_key_Some:
  "find P xs = Some s \<Longrightarrow> \<exists>s'. find (\<lambda>r. stock_id r = stock_id s) xs = Some s'"
  by (induction xs) (auto split: if_splits)

lemma find_in_set: "find P xs = Some s \<Longrightarrow> s \<in> set xs \<and> P s"
  by (induction xs) (auto split: if_splits)


lemma find_map_preserving:
  "(\<And>r. P (f r) = P r) \<Longrightarrow> find P (map f xs) = map_option f (find P xs)"
  by (induction xs) auto




lemma distinct_key_eq:
  "distinct (map stock_id xs) \<Longrightarrow> a \<in> set xs \<Longrightarrow> b \<in> set xs \<Longrightarrow>
   stock_id a = stock_id b \<Longrightarrow> a = b"
  by (meson distinct_map inj_on_def)

subsection \<open>Stock adjustment, store never failing\<close>




subsection \<open>Stock transfer, store never failing\<close>






lemmas ex_workflow_defs = ex_workflow_request_def ex_request_def ex_approvisionnement_def

subsection \<open>What a successful workflow request has done, whatever the failure schedule\<close>



lemmas ex_order_defs = ex_item_def ex_order_request_def ex_request_def

subsection \<open>Stock validation reads only\<close>

lemma validateStockAvailability_result:
  "\<exists>v. validateStockAvailability items wid (d, fs) = (Inr v, (d, fs)) \<and>
       (case find (offending d wid) items of
          None \<Rightarrow> valid v
        | Some item \<Rightarrow> \<not> valid v \<and> productName v = Some (offender_name d wid item))"
proof (induction items)
  case Nil
  show ?case by (simp add: io_defs)
next
  case (Cons item items)
  show ?case
  proof (cases "offending d wid item")
    case True
    then show ?thesis
      by (auto simp add: io_defs offending_def offender_name_def ledger_entry_def
          split: option.splits)
  next
    case False
    then obtain s where s: "ledger_entry d (it_product_id item) wid = Some s"
      and enough: "\<not> st_quantity s < it_quantity item"
      by (auto simp add: offending_def split: option.splits)
    have step: "validateStockAvailability (item # items) wid (d, fs) =
        validateStockAvailability items wid (d, fs)"
      using s enough by (simp add: io_defs ledger_entry_def)
    show ?thesis
      using Cons.IH False by (simp only: step find.simps if_False)
  qed
qed


subsection \<open>The transactions of receipt and order processing write no audit record\<close>






















subsection \<open>Where each operation writes its audit record\<close>














subsection \<open>The stock management endpoint hands authorised requests to the action handlers\<close>

lemma catch_io_returns: "\<exists>r w'. catch_io m (\<lambda>e. return_io (h e)) w = (Inr r, w')"
proof -
  obtain r1 w1 where m: "m w = (r1, w1)" by (metis surj_pair)
  show ?thesis
    using m by (cases r1) (simp_all add: catch_io_def return_io_def)
qed

lemma catch_io_of_result: "m w = (Inr r, w') \<Longrightarrow> catch_io m h w = (Inr r, w')"
  by (simp add: catch_io_def)

lemma handleStockAdjustment_answers:
  "\<exists>r w'. handleStockAdjustment usr data now w = (Inr r, w')"
proof (cases "falsy_str (sr_product_id data) \<or> falsy_str (sr_warehouse_id data)
         \<or> sr_quantity data = None")
  case True
  then show ?thesis by (auto simp add: handleStockAdjustment_def return_io_def)
next
  case False
  show ?thesis
    unfolding handleStockAdjustment_def if_not_P[OF False] by (rule catch_io_returns)
qed

lemma handleStockTransfer_answers:
  "\<exists>r w'. handleStockTransfer usr data now w = (Inr r, w')"
proof (cases "falsy_str (sr_product_id data) \<or> falsy_str (from_warehouse_id data)
         \<or> falsy_str (to_warehouse_id data) \<or> falsy_num (sr_quantity data)")
  case True
  then show ?thesis by (auto simp add: handleStockTransfer_def return_io_def)
next
  case False
  show ?thesis
  proof (cases "from_warehouse_id data = to_warehouse_id data")
    case True
    then show ?thesis using False by (auto simp add: handleStockTransfer_def return_io_def)
  next
    case ne: False
    show ?thesis
      unfolding handleStockTransfer_def if_not_P[OF False] if_not_P[OF ne]
      by (rule catch_io_returns)
  qed
qed

lemma handleStockAlert_answers:
  "\<exists>r w'. handleStockAlert usr data w = (Inr r, w')"
proof (cases "falsy_str (sr_product_id data) \<or> falsy_num (threshold data)")
  case True
  then show ?thesis by (auto simp add: handleStockAlert_def return_io_def)
next
  case False
  show ?thesis
    unfolding handleStockAlert_def if_not_P[OF False] by (rule catch_io_returns)
qed

lemma stocks_management_dispatch:
  assumes "rq_method req = ''POST''" and "rq_user req = Some usr"
    and "stockManagementSchema (rq_body req)"
    and "u_role usr = ''stock_manager'' \<or> u_role usr = ''admin''"
  shows "sr_action (rq_body req) = ''adjust'' \<Longrightarrow>
           handler_stocks_management req now w = handleStockAdjustment usr (rq_body req) now w"
    and "sr_action (rq_body req) = ''transfer'' \<Longrightarrow>
           handler_stocks_management req now w = handleStockTransfer usr (rq_body req) now w"
    and "sr_action (rq_body req) = ''alert'' \<Longrightarrow>
           handler_stocks_management req now w = handleStockAlert usr (rq_body req) w"
proof -
  obtain r1 w1 where a: "handleStockAdjustment usr (rq_body req) now w = (Inr r1, w1)"
    using handleStockAdjustment_answers by blast
  obtain r2 w2 where t: "handleStockTransfer usr (rq_body req) now w = (Inr r2, w2)"
    using handleStockTransfer_answers by blast
  obtain r3 w3 where l: "handleStockAlert usr (rq_body req) w = (Inr r3, w3)"
    using handleStockAlert_answers by blast
  show "sr_action (rq_body req) = ''adjust'' \<Longrightarrow>
           handler_stocks_management req now w = handleStockAdjustment usr (rq_body req) now w"
    using assms a by (auto simp add: handler_stocks_management_def catch_io_def)
  show "sr_action (rq_body req) = ''transfer'' \<Longrightarrow>
           handler_stocks_management req now w = handleStockTransfer usr (rq_body req) now w"
    using assms t by (auto simp add: handler_stocks_management_def catch_io_def)
  show "sr_action (rq_body req) = ''alert'' \<Longrightarrow>
           handler_stocks_management req now w = handleStockAlert usr (rq_body req) w"
    using assms l by (auto simp add: handler_stocks_management_def catch_io_def)
qed

lemma stocks_management_forbidden:
  assumes "rq_method req = ''POST''" and "rq_user req = Some usr"
    and "stockManagementSchema (rq_body req)"
    and "u_role usr \<noteq> ''stock_manager''" and "u_role usr \<noteq> ''admin''"
  shows "handler_stocks_management req now w =
    (Inr (Failure 403 ''Only Stock Managers can manage inventory'' ''INSUFFICIENT_PERMISSIONS''),
     w)"
  using assms by (simp add: handler_stocks_management_def catch_io_def return_io_def)

subsection \<open>Orders that name every product once keep the ledger non-negative\<close>

lemma create_items_and_update_stock_run:
  "create_items_and_update_stock oid wid now items (d, []) =
     (Inr (map (\<lambda>item. \<lparr>oi_order_id = oid, oi_product_id = it_product_id item,
                         oi_quantity = it_quantity item,
                         oi_unit_price = it_unit_price item\<rparr>) items),
      (d\<lparr>order_items := order_items d @
            map (\<lambda>item. \<lparr>oi_order_id = oid, oi_product_id = it_product_id item,
                          oi_quantity = it_quantity item,
                          oi_unit_price = it_unit_price item\<rparr>) items,
         stocks := foldl (decrement_for wid now) (stocks d) items\<rparr>, []))"
proof (induction items arbitrary: d)
  case Nil
  show ?case by (simp add: return_io_def)
next
  case (Cons item items)
  show ?case
  proof (cases "find (\<lambda>s. st_product_id s = it_product_id item \<and> st_warehouse_id s = wid)
                  (stocks d)")
    case None
    then show ?thesis
      by (simp add: Cons.IH io_defs decrement_for_def)
  next
    case (Some s)
    then obtain s' where "find (\<lambda>r. stock_id r = stock_id s) (stocks d) = Some s'"
      using find_key_Some by blast
    then show ?thesis
      using Some by (simp add: Cons.IH io_defs decrement_for_def)
  qed
qed

lemma ledger_covers_step:
  assumes "ledger_covers wid rows (item # items)"
  shows "ledger_covers wid (decrement_for wid now rows item) items"
proof -
  let ?P = "\<lambda>it s. st_product_id s = it_product_id it \<and> st_warehouse_id s = wid"
  from assms obtain s where s: "find (?P item) rows = Some s"
    and enough: "it_quantity item \<le> st_quantity s"
    by (auto simp add: ledger_covers_def split: option.splits)
  have dist: "distinct (map stock_id rows)"
    and nonneg: "\<forall>r \<in> set rows. 0 \<le> st_quantity r"
    and ditems: "distinct (map it_product_id (item # items))"
    and cover: "\<forall>it \<in> set items. \<exists>r. find (?P it) rows = Some r \<and> it_quantity it \<le> st_quantity r"
    using assms by (auto simp add: ledger_covers_def list_all_iff split: option.splits)
  have sin: "s \<in> set rows" and sp: "st_product_id s = it_product_id item"
    using s find_in_set by fastforce+
  let ?f = "\<lambda>r. if stock_id r = stock_id s
                 then r\<lparr>st_quantity := st_quantity r - it_quantity item,
                        last_updated := Some now\<rparr>
                 else r"
  have dec: "decrement_for wid now rows item = map ?f rows"
    using s by (simp add: decrement_for_def)
  have keys: "map stock_id (map ?f rows) = map stock_id rows"
    by (induction rows) auto
  have nn: "\<forall>r \<in> set rows. 0 \<le> st_quantity (?f r)"
  proof
    fix r assume r: "r \<in> set rows"
    show "0 \<le> st_quantity (?f r)"
    proof (cases "stock_id r = stock_id s")
      case True
      then have "r = s" using distinct_key_eq[OF dist r sin] by simp
      then show ?thesis using enough by simp
    next
      case False
      then show ?thesis using nonneg r by simp
    qed
  qed
  have cov: "\<forall>it \<in> set items.
      \<exists>r. find (?P it) (map ?f rows) = Some r \<and> it_quantity it \<le> st_quantity r"
  proof
    fix it assume it: "it \<in> set items"
    then obtain r where r: "find (?P it) rows = Some r" and le: "it_quantity it \<le> st_quantity r"
      using cover by blast
    have rin: "r \<in> set rows" and rp: "st_product_id r = it_product_id it"
      using r find_in_set by fastforce+
    have "it_product_id it \<noteq> it_product_id item"
      using ditems it by (auto simp add: image_iff)
    then have "r \<noteq> s" using rp sp by auto
    then have "stock_id r \<noteq> stock_id s"
      using distinct_key_eq[OF dist rin sin] by auto
    then have "?f r = r" by simp
    moreover have "find (?P it) (map ?f rows) = map_option ?f (find (?P it) rows)"
      by (rule find_map_preserving) simp
    ultimately show "\<exists>r. find (?P it) (map ?f rows) = Some r \<and> it_quantity it \<le> st_quantity r"
      using r le by simp
  qed
  have 1: "distinct (map stock_id (map ?f rows))"
    by (simp only: keys dist)
  have 2: "list_all (\<lambda>s. 0 \<le> st_quantity s) (map ?f rows)"
    unfolding list_all_iff set_map using nn by blast
  have 3: "distinct (map it_product_id items)"
    using ditems by simp
  have 4: "list_all (\<lambda>item.
         case find (\<lambda>s. st_product_id s = it_product_id item \<and> st_warehouse_id s = wid)
                (map ?f rows) of
           None \<Rightarrow> False
         | Some s \<Rightarrow> it_quantity item \<le> st_quantity s) items"
    unfolding list_all_iff
  proof
    fix it assume "it \<in> set items"
    then obtain r where "find (?P it) (map ?f rows) = Some r" "it_quantity it \<le> st_quantity r"
      using cov by blast
    then show "case find (?P it) (map ?f rows) of
                 None \<Rightarrow> False | Some s \<Rightarrow> it_quantity it \<le> st_quantity s"
      by simp
  qed
  show ?thesis
    unfolding ledger_covers_def dec using 1 2 3 4 by (intro conjI)
qed

lemma ledger_covers_foldl:
  "ledger_covers wid rows items \<Longrightarrow>
   list_all (\<lambda>s. 0 \<le> st_quantity s) (foldl (decrement_for wid now) rows items)"
proof (induction items arbitrary: rows)
  case Nil
  then show ?case by (simp add: ledger_covers_def)
next
  case (Cons item items)
  then show ?case using ledger_covers_step by simp
qed

lemma find_append_last_Some: "P x \<Longrightarrow> \<exists>y. find P (xs @ [x]) = Some y"
  by (induction xs) auto

lemma find_append_last_case:
  "P x \<Longrightarrow>
   (case find P (xs @ [x]) of None \<Rightarrow> a | Some r \<Rightarrow> f r) = f (the (find P (xs @ [x])))"
  using find_append_last_Some[of P x xs] by auto

lemma order_with_distinct_products_keeps_ledger_nonnegative:
  assumes "rq_method req = ''POST''" and "rq_user req = Some usr"
    and "u_role usr = ''client'' \<or> u_role usr = ''admin''"
    and "orderProcessingSchema (rq_body req)"
    and keys: "distinct (map stock_id (stocks d))"
    and nonneg: "list_all (\<lambda>s. 0 \<le> st_quantity s) (stocks d)"
    and once: "distinct (map it_product_id (oq_items (rq_body req)))"
    and enough: "find (offending d (oq_warehouse_id (rq_body req))) (oq_items (rq_body req)) = None"
  shows "\<exists>res d'.
      handler_orders_process req now (d, []) = (Inr (Success 201 res), (d', [])) \<and>
      stocks d' = foldl (decrement_for (oq_warehouse_id (rq_body req)) now) (stocks d)
                    (oq_items (rq_body req)) \<and>
      list_all (\<lambda>s. 0 \<le> st_quantity s) (stocks d')"
proof -
  let ?b = "rq_body req"
  let ?wid = "oq_warehouse_id ?b"
  obtain v where v: "validateStockAvailability (oq_items ?b) ?wid (d, []) = (Inr v, (d, []))"
    and ok: "valid v"
    using validateStockAvailability_result[of "oq_items ?b" ?wid d "[]"] enough by auto
  have cover: "ledger_covers ?wid (stocks d) (oq_items ?b)"
    using keys nonneg once enough
    by (auto simp add: ledger_covers_def list_all_iff find_None_iff offending_def
        ledger_entry_def split: option.splits)
  have fin: "list_all (\<lambda>s. 0 \<le> st_quantity s)
      (foldl (decrement_for ?wid now) (stocks d) (oq_items ?b))"
    using ledger_covers_foldl[OF cover] .
  have tx: "\<exists>res d1. order_tx ?b now (d, []) = (Inr res, (d1, [])) \<and>
      stocks d1 = foldl (decrement_for ?wid now) (stocks d) (oq_items ?b)"
    using v ok
    by (simp add: order_tx_def Let_def bind_io_def return_io_def store_write_def
        orders_create_def create_items_and_update_stock_run deliveries_create_def
        payments_create_def orders_updateWhere_def find_append_last_case)
  then obtain res d1 where run: "order_tx ?b now (d, []) = (Inr res, (d1, []))"
    and st: "stocks d1 = foldl (decrement_for ?wid now) (stocks d) (oq_items ?b)"
    by blast
  have "\<exists>d'. handler_orders_process req now (d, []) = (Inr (Success 201 res), (d', [])) \<and>
      stocks d' = stocks d1"
    using assms(1-4) run
    by (simp add: handler_orders_process_def bind_io_def catch_io_def return_io_def
        prisma_transaction_def store_write_def transaction_logs_create_def
        notifications_create_def)
  then show ?thesis using st fin by auto
qed

section \<open>Stock management operations\<close>






text \<open>
  Claim C9. For every \<open>alert(product_id, threshold)\<close> against a store that does not fail,
  where \<open>cs\<close> is the first ledger row of the product in any warehouse: if its quantity is at
  most the threshold the operation answers \<open>is_low_stock = true\<close>, creates exactly one
  notification, addressed to the caller, and appends exactly one audit record of the alert;
  if its quantity is above the threshold it answers \<open>is_low_stock = false\<close> and the store is
  left as it was.
\<close>

theorem alert_notifies_once_or_not_at_all:
  assumes "sr_product_id data = Some pid" and "pid \<noteq> []"
    and "threshold data = Some t" and "0 < t"
    and "first_entry_of_product d pid = Some cs"
  shows
    "(st_quantity cs \<le> t \<longrightarrow>
        handleStockAlert usr data (d, []) =
          (Inr (Success 200 (Alert
             \<lparr>al_product = products d (st_product_id cs), current_quantity = st_quantity cs,
              al_threshold = t, is_low_stock = True, alert_sent = True\<rparr>)),
           (d\<lparr>notifications := notifications d @
                [\<lparr>no_user_id = u_id usr, no_type = ''email'',
                  no_message = Msg_low_stock (products d (st_product_id cs)) (st_quantity cs) t,
                  no_status = ''sent''\<rparr>],
              transaction_logs := transaction_logs d @
                [\<lparr>entity_type = ''stocks'', entity_id = stock_id cs, action = ''CREATE'',
                  tl_user_id = u_id usr,
                  tl_details = Details_low_stock_alert pid (st_quantity cs) t True\<rparr>]\<rparr>,
            []))) \<and>
     (t < st_quantity cs \<longrightarrow>
        handleStockAlert usr data (d, []) =
          (Inr (Success 200 (Alert
             \<lparr>al_product = products d (st_product_id cs), current_quantity = st_quantity cs,
              al_threshold = t, is_low_stock = False, alert_sent = False\<rparr>)),
           (d, [])))"
  using assms
  by (simp add: handleStockAlert_def io_defs first_entry_of_product_def)

text \<open>
  The theorem at the specification's examples, \<open>alert(productA, 10)\<close> with 8 on hand (one
  notification, one audit record) and with 12 on hand (neither).
\<close>

theorem alert_notifies_once_or_not_at_all_witness:
  "(\<exists>res d'.
      handleStockAlert (ex_user ''sm1'' ''stock_manager'') (ex_stock_request ''alert'')
        (ex_db [ex_stock 1 ''productA'' ''W1'' 8 4] Map.empty, []) =
          (Inr (Success 200 (Alert res)), (d', [])) \<and>
      is_low_stock res \<and> map no_user_id (notifications d') = [''sm1''] \<and>
      length (transaction_logs d') = 1) \<and>
   (\<exists>res.
      handleStockAlert (ex_user ''sm1'' ''stock_manager'') (ex_stock_request ''alert'')
        (ex_db [ex_stock 1 ''productA'' ''W1'' 12 4] Map.empty, []) =
          (Inr (Success 200 (Alert res)),
           (ex_db [ex_stock 1 ''productA'' ''W1'' 12 4] Map.empty, [])) \<and>
      \<not> is_low_stock res \<and>
      notifications (ex_db [ex_stock 1 ''productA'' ''W1'' 12 4] Map.empty) = [] \<and>
      transaction_logs (ex_db [ex_stock 1 ''productA'' ''W1'' 12 4] Map.empty) = [])"
proof -
  let ?u = "ex_user ''sm1'' ''stock_manager''"
  let ?lo = "ex_db [ex_stock 1 ''productA'' ''W1'' 8 4] Map.empty"
  let ?hi = "ex_db [ex_stock 1 ''productA'' ''W1'' 12 4] Map.empty"
  have lo: "first_entry_of_product ?lo ''productA'' = Some (ex_stock 1 ''productA'' ''W1'' 8 4)"
    and hi: "first_entry_of_product ?hi ''productA'' = Some (ex_stock 1 ''productA'' ''W1'' 12 4)"
    by (simp_all add: first_entry_of_product_def ex_defs)
  have 1: "\<exists>res d'.
      handleStockAlert ?u (ex_stock_request ''alert'') (?lo, []) =
          (Inr (Success 200 (Alert res)), (d', [])) \<and>
      is_low_stock res \<and> map no_user_id (notifications d') = [''sm1''] \<and>
      length (transaction_logs d') = 1"
    using alert_notifies_once_or_not_at_all
      [of "ex_stock_request ''alert''" "''productA''" 10 ?lo
          "ex_stock 1 ''productA'' ''W1'' 8 4" ?u] lo
    by (simp add: ex_defs)
  have 2: "\<exists>res.
      handleStockAlert ?u (ex_stock_request ''alert'') (?hi, []) =
          (Inr (Success 200 (Alert res)), (?hi, [])) \<and>
      \<not> is_low_stock res \<and> notifications ?hi = [] \<and> transaction_logs ?hi = []"
    using alert_notifies_once_or_not_at_all
      [of "ex_stock_request ''alert''" "''productA''" 10 ?hi
          "ex_stock 1 ''productA'' ''W1'' 12 4" ?u] hi
    by (simp add: ex_defs)
  from 1 2 show ?thesis by blast
qed

section \<open>Approvisionnement workflow\<close>

text \<open>
  Claim C10. In the workflow endpoint the lookup of the approvisionnement comes before
  any role check: a well-formed request (POST, authenticated, body accepted by the schema,
  so with any of the four actions) that names an id with no approvisionnement row is
  answered 404 \<open>NOT_FOUND\<close>, whatever the caller's role and whatever the store's failure
  schedule, and changes nothing.
\<close>

theorem workflow_unknown_id_not_found_for_any_role:
  assumes "rq_method req = ''POST''" and "rq_user req = Some usr"
    and "workflowActionSchema (rq_body req)"
    and "approvisionnements d (wf_approvisionnement_id (rq_body req)) = None"
  shows "handler_workflow req now (d, fs) =
    (Inr (Failure 404 ''Approvisionnement not found'' ''NOT_FOUND''), (d, fs))"
  using assms by (simp add: handler_workflow_def io_defs)

text \<open>
  The theorem for a caller with role \<open>client\<close>, which is in no action's allow-list, asking
  for \<open>receive_stock\<close> on an id that does not exist.
\<close>

theorem workflow_unknown_id_not_found_for_any_role_witness:
  "handler_workflow
     (ex_request (ex_user ''c1'' ''client'') (ex_workflow_request ''receive_stock'' 5)) 7
     (ex_db [] Map.empty, [True]) =
   (Inr (Failure 404 ''Approvisionnement not found'' ''NOT_FOUND''),
    (ex_db [] Map.empty, [True]))"
  using workflow_unknown_id_not_found_for_any_role
    [of "ex_request (ex_user ''c1'' ''client'') (ex_workflow_request ''receive_stock'' 5)"
        "ex_user ''c1'' ''client''" "ex_db [] Map.empty" 7 "[True]"]
  by (simp add: ex_defs ex_workflow_defs workflowActionSchema_def)





section \<open>Order processing\<close>




text \<open>
  Claim C1 at a failing input. The ledger holds 5 of productA, the only row and not
  negative, and the order names productA twice, 3 units each time. Each item alone passes
  the stock validation, the order is answered 201, and the two decrements leave the
  ledger entry at -1.
\<close>

theorem order_naming_a_product_twice_overdraws:
  "map st_quantity (stocks (ex_db [ex_stock 1 ''productA'' ''W1'' 5 10] Map.empty)) = [5] \<and>
   status_after (handler_orders_process
      (ex_request (ex_user ''c1'' ''client'')
         (ex_order_request [ex_item ''productA'' 3 10, ex_item ''productA'' 3 10])) 7
      (ex_db [ex_stock 1 ''productA'' ''W1'' 5 10] Map.empty, [])) = Some 201 \<and>
   map st_quantity (stocks (db_after (handler_orders_process
      (ex_request (ex_user ''c1'' ''client'')
         (ex_order_request [ex_item ''productA'' 3 10, ex_item ''productA'' 3 10])) 7
      (ex_db [ex_stock 1 ''productA'' ''W1'' 5 10] Map.empty, [])))) = [- 1]"
  by (simp add: handler_orders_process_def order_tx_def orderProcessingSchema_def io_defs
      db_after_def status_after_def ex_defs ex_order_defs)

section \<open>Audit records and the atomic unit\<close>




section \<open>Failures after the commit\<close>

text \<open>
  Claim C6 at a failing input. A client orders 3 units of productA at price 10 from a
  ledger entry of 5. The five writes of the transaction succeed and the transaction
  commits; then the store fails, in the first run at the audit append and in the second
  at the first notification. In both runs the caller is answered 500, while the order
  (already \<open>paid\<close>), the decrement to 2 and the payment of 30 stay committed.
\<close>

theorem order_committed_but_answered_500_when_audit_or_notification_fails:
  "status_after (handler_orders_process
      (ex_request (ex_user ''c1'' ''client'') (ex_order_request [ex_item ''productA'' 3 10])) 7
      (ex_db [ex_stock 1 ''productA'' ''W1'' 5 10] Map.empty,
       [False, False, False, False, False, True])) = Some 500 \<and>
   map or_status (orders (db_after (handler_orders_process
      (ex_request (ex_user ''c1'' ''client'') (ex_order_request [ex_item ''productA'' 3 10])) 7
      (ex_db [ex_stock 1 ''productA'' ''W1'' 5 10] Map.empty,
       [False, False, False, False, False, True])))) = [''paid''] \<and>
   map st_quantity (stocks (db_after (handler_orders_process
      (ex_request (ex_user ''c1'' ''client'') (ex_order_request [ex_item ''productA'' 3 10])) 7
      (ex_db [ex_stock 1 ''productA'' ''W1'' 5 10] Map.empty,
       [False, False, False, False, False, True])))) = [2] \<and>
   map amount (payments (db_after (handler_orders_process
      (ex_request (ex_user ''c1'' ''client'') (ex_order_request [ex_item ''productA'' 3 10])) 7
      (ex_db [ex_stock 1 ''productA'' ''W1'' 5 10] Map.empty,
       [False, False, False, False, False, True])))) = [30] \<and>
   status_after (handler_orders_process
      (ex_request (ex_user ''c1'' ''client'') (ex_order_request [ex_item ''productA'' 3 10])) 7
      (ex_db [ex_stock 1 ''productA'' ''W1'' 5 10] Map.empty,
       [False, False, False, False, False, False, True])) = Some 500 \<and>
   map or_status (orders (db_after (handler_orders_process
      (ex_request (ex_user ''c1'' ''client'') (ex_order_request [ex_item ''productA'' 3 10])) 7
      (ex_db [ex_stock 1 ''productA'' ''W1'' 5 10] Map.empty,
       [False, False, False, False, False, False, True])))) = [''paid''] \<and>
   map st_quantity (stocks (db_after (handler_orders_process
      (ex_request (ex_user ''c1'' ''client'') (ex_order_request [ex_item ''productA'' 3 10])) 7
      (ex_db [ex_stock 1 ''productA'' ''W1'' 5 10] Map.empty,
       [False, False, False, False, False, False, True])))) = [2]"
  by (simp add: handler_orders_process_def order_tx_def orderProcessingSchema_def io_defs
      db_after_def status_after_def ex_defs ex_order_defs)

end
